theory Spec2Isabelle
  imports Complex_Main
begin

section \<open>NAT2 genotype lookup and isoniazid dosing recommendation\<close>

text \<open>
  A shallow embedding of the decision logic of \<^verbatim>\<open>Hackathon_Phas1.py\<close>: the module-level
  table \<^verbatim>\<open>NAT2_GENOTYPES\<close> and the two methods of \<^verbatim>\<open>NAT2Analyzer\<close>,
  \<^verbatim>\<open>analyze_genotype\<close> and \<^verbatim>\<open>get_dosing_recommendation\<close>. The Streamlit
  front end (\<^verbatim>\<open>create_app\<close>) only calls these and draws the results.

  Conventions of the model:
  \<^item> a Python dict whose iteration order matters (\<^verbatim>\<open>NAT2_GENOTYPES\<close>) is an
    association list in insertion order; the inner dicts are association lists read
    with \<open>map_of\<close>;
  \<^item> the caller's \<^verbatim>\<open>mutations\<close> dict is a partial map from positions to symbols;
  \<^item> a subscript \<^verbatim>\<open>d[k]\<close> on a missing key raises \<^verbatim>\<open>KeyError\<close>: results are
    of type \<open>error + 'a\<close>, with \<open>Inl\<close> the raised error;
  \<^item> the frequencies are float literals that are only stored and returned, never
    computed with; each is modelled by the real number its decimal literal denotes.
\<close>

subsection \<open>Data\<close>

datatype error = KeyError int

record genotype_data =
  acetylator_type :: string
  frequency :: real
  mutations :: "(int \<times> string) list"

record recommendation =
  dose :: string
  risk :: string
  monitoring :: string
  details :: string

text \<open>The table \<^verbatim>\<open>NAT2_GENOTYPES\<close>, entry by entry, in the order of the source.\<close>

definition NAT2_GENOTYPES :: "(string \<times> genotype_data) list" where
  "NAT2_GENOTYPES =
    [(''NAT2*4/*4'',
        \<lparr>acetylator_type = ''Fast'', frequency = 33 / 10,
         mutations = [(282, ''.''), (341, ''.''), (481, ''.''),
                      (590, ''.''), (803, ''.''), (857, ''.'')]\<rparr>),
     (''NAT2*4/*14'',
        \<lparr>acetylator_type = ''Intermediate'', frequency = 8 / 10,
         mutations = [(282, ''.''), (341, ''.''), (481, ''.''),
                      (590, ''.''), (803, ''A''), (857, ''G'')]\<rparr>),
     (''NAT2*4/*5'',
        \<lparr>acetylator_type = ''Intermediate'', frequency = 15,
         mutations = [(282, ''.''), (341, ''C''), (481, ''T''),
                      (590, ''.''), (803, ''G''), (857, ''.'')]\<rparr>),
     (''NAT2*5/*5'',
        \<lparr>acetylator_type = ''Slow'', frequency = 242 / 10,
         mutations = [(282, ''.''), (341, ''C''), (481, ''T''),
                      (590, ''.''), (803, ''G''), (857, ''.'')]\<rparr>),
     (''NAT2*6/*6'',
        \<lparr>acetylator_type = ''Slow'', frequency = 158 / 10,
         mutations = [(282, ''T''), (341, ''.''), (481, ''.''),
                      (590, ''A''), (803, ''.''), (857, ''.'')]\<rparr>)]"

text \<open>\<^verbatim>\<open>self.mutation_positions\<close>, set once in \<^verbatim>\<open>__init__\<close>.\<close>

definition mutation_positions :: "int list" where
  "mutation_positions = [282, 341, 481, 590, 803, 857]"

subsection \<open>Dictionary access\<close>

text \<open>\<^verbatim>\<open>d.get(k, default)\<close> on a dict given as a partial map.\<close>

definition dict_get :: "('k \<rightharpoonup> 'v) \<Rightarrow> 'k \<Rightarrow> 'v \<Rightarrow> 'v" where
  "dict_get d k dflt = (case d k of None \<Rightarrow> dflt | Some v \<Rightarrow> v)"

subsection \<open>\<^verbatim>\<open>analyze_genotype\<close>\<close>

text \<open>
  The generator inside \<^verbatim>\<open>all(...)\<close>:
  \<^verbatim>\<open>mutations.get(pos, '.') == data['mutations'][pos] for pos in self.mutation_positions\<close>.
  \<^verbatim>\<open>all\<close> stops at the first false comparison; the subscript on the record's dict
  raises \<^verbatim>\<open>KeyError\<close> when the record has no entry for \<open>pos\<close>.
\<close>

fun all_positions_equal ::
  "(int \<rightharpoonup> string) \<Rightarrow> (int \<times> string) list \<Rightarrow> int list \<Rightarrow> error + bool" where
  "all_positions_equal observed expected [] = Inr True"
| "all_positions_equal observed expected (pos # rest) =
     (case map_of expected pos of
        None \<Rightarrow> Inl (KeyError pos)
      | Some e \<Rightarrow>
          if dict_get observed pos ''.'' = e
          then all_positions_equal observed expected rest
          else Inr False)"

text \<open>
  The \<^verbatim>\<open>for genotype, data in NAT2_GENOTYPES.items()\<close> loop, over the entries still to
  visit: return at the first record that matches, the sentinel after the last one.
\<close>

fun analyze_genotype_loop ::
  "(string \<times> genotype_data) list \<Rightarrow> (int \<rightharpoonup> string) \<Rightarrow> error + (string \<times> string \<times> real)" where
  "analyze_genotype_loop [] observed = Inr (''Unknown'', ''Unknown'', 0)"
| "analyze_genotype_loop ((genotype, data) # rest) observed =
     (case all_positions_equal observed (mutations data) mutation_positions of
        Inl e \<Rightarrow> Inl e
      | Inr matched \<Rightarrow>
          if matched
          then Inr (genotype, acetylator_type data, frequency data)
          else analyze_genotype_loop rest observed)"

definition analyze_genotype :: "(int \<rightharpoonup> string) \<Rightarrow> error + (string \<times> string \<times> real)" where
  "analyze_genotype observed = analyze_genotype_loop NAT2_GENOTYPES observed"

subsection \<open>\<^verbatim>\<open>get_dosing_recommendation\<close>\<close>

text \<open>The local dict \<^verbatim>\<open>recommendations\<close> and the default passed to its \<^verbatim>\<open>get\<close>.\<close>

definition recommendations :: "(string \<times> recommendation) list" where
  "recommendations =
    [(''Fast'',
        \<lparr>dose = ''5-6 mg/kg/day'',
         risk = ''Lower risk of adverse effects, monitor for treatment efficacy'',
         monitoring = ''Regular liver function tests every 3 months'',
         details = ''May require higher doses to maintain therapeutic levels''\<rparr>),
     (''Intermediate'',
        \<lparr>dose = ''4-5 mg/kg/day'',
         risk = ''Moderate risk of adverse effects'',
         monitoring = ''Liver function tests every 2 months'',
         details = ''Standard dosing usually appropriate''\<rparr>),
     (''Slow'',
        \<lparr>dose = ''2.5-4 mg/kg/day'',
         risk = ''Higher risk of drug-induced liver injury'',
         monitoring = ''Monthly liver function tests'',
         details = ''Requires reduced dosing to prevent toxicity''\<rparr>)]"

definition fallback_recommendation :: recommendation where
  "fallback_recommendation =
     \<lparr>dose = ''Consult specialist'',
      risk = ''Unknown'',
      monitoring = ''Frequent monitoring required'',
      details = ''Individual assessment needed''\<rparr>"

definition get_dosing_recommendation :: "string \<Rightarrow> recommendation" where
  "get_dosing_recommendation acetylator =
     dict_get (map_of recommendations) acetylator fallback_recommendation"

subsection \<open>Specification predicates\<close>

text \<open>
  Follows the specification's words: a record matches an observed mapping when, at each of
  the six positions, the record's expected symbol equals the observed symbol, an absent
  position being read as \<^verbatim>\<open>'.'\<close>.
\<close>

definition matches :: "(int \<rightharpoonup> string) \<Rightarrow> genotype_data \<Rightarrow> bool" where
  "matches observed data \<longleftrightarrow>
     (\<forall>pos \<in> set mutation_positions.
        map_of (mutations data) pos = Some (dict_get observed pos ''.''))"

text \<open>A record is complete when its \<^verbatim>\<open>mutations\<close> dict has a key for every position.\<close>

definition complete_record :: "genotype_data \<Rightarrow> bool" where
  "complete_record data \<longleftrightarrow>
     (\<forall>pos \<in> set mutation_positions. map_of (mutations data) pos \<noteq> None)"

section \<open>Properties\<close>

subsection \<open>The scan as a search for the first matching record\<close>

text \<open>
  On a record with all its keys the comparison raises nothing and decides \<open>matches\<close>;
  on a table of such records the loop is \<open>find\<close> with the sentinel as default.
\<close>

lemma all_positions_equal_complete:
  assumes "\<forall>pos \<in> set ps. map_of expected pos \<noteq> None"
  shows "all_positions_equal observed expected ps =
           Inr (\<forall>pos \<in> set ps. map_of expected pos = Some (dict_get observed pos ''.''))"
  using assms by (induction ps) auto

lemma all_positions_equal_matches:
  "complete_record data \<Longrightarrow>
     all_positions_equal observed (mutations data) mutation_positions = Inr (matches observed data)"
  unfolding complete_record_def matches_def by (rule all_positions_equal_complete)

lemma analyze_genotype_loop_find:
  assumes "\<forall>entry \<in> set table. complete_record (snd entry)"
  shows "analyze_genotype_loop table observed =
           (case find (\<lambda>entry. matches observed (snd entry)) table of
              None \<Rightarrow> Inr (''Unknown'', ''Unknown'', 0)
            | Some entry \<Rightarrow>
                Inr (fst entry, acetylator_type (snd entry), frequency (snd entry)))"
  using assms
proof (induction table)
  case Nil
  show ?case by simp
next
  case (Cons entry table)
  obtain genotype data where entry: "entry = (genotype, data)" by (cases entry)
  from Cons.prems have "complete_record data" by (simp add: entry)
  then have eq: "all_positions_equal observed (mutations data) mutation_positions
                  = Inr (matches observed data)"
    by (rule all_positions_equal_matches)
  from Cons have IH: "analyze_genotype_loop table observed =
           (case find (\<lambda>entry. matches observed (snd entry)) table of
              None \<Rightarrow> Inr (''Unknown'', ''Unknown'', 0)
            | Some entry \<Rightarrow>
                Inr (fst entry, acetylator_type (snd entry), frequency (snd entry)))"
    by simp
  show ?case by (simp add: entry eq IH)
qed

lemma NAT2_GENOTYPES_complete: "\<forall>entry \<in> set NAT2_GENOTYPES. complete_record (snd entry)"
  by (simp add: NAT2_GENOTYPES_def complete_record_def mutation_positions_def)

lemma analyze_genotype_find:
  "analyze_genotype observed =
     (case find (\<lambda>entry. matches observed (snd entry)) NAT2_GENOTYPES of
        None \<Rightarrow> Inr (''Unknown'', ''Unknown'', 0)
      | Some entry \<Rightarrow> Inr (fst entry, acetylator_type (snd entry), frequency (snd entry)))"
  unfolding analyze_genotype_def
  by (rule analyze_genotype_loop_find [OF NAT2_GENOTYPES_complete])

text \<open>The loop reads the observed mapping only through \<^verbatim>\<open>get(pos, '.')\<close> at the six positions.\<close>

lemma all_positions_equal_cong:
  assumes "\<forall>pos \<in> set ps. dict_get a pos ''.'' = dict_get b pos ''.''"
  shows "all_positions_equal a expected ps = all_positions_equal b expected ps"
  using assms by (induction ps) (auto split: option.splits)

lemma analyze_genotype_loop_cong:
  assumes "\<forall>pos \<in> set mutation_positions. dict_get a pos ''.'' = dict_get b pos ''.''"
  shows "analyze_genotype_loop table a = analyze_genotype_loop table b"
proof (induction table)
  case Nil
  show ?case by simp
next
  case (Cons entry table)
  obtain genotype data where entry: "entry = (genotype, data)" by (cases entry)
  have "all_positions_equal a (mutations data) mutation_positions
          = all_positions_equal b (mutations data) mutation_positions"
    using assms by (rule all_positions_equal_cong)
  with Cons.IH show ?case by (simp add: entry split: sum.splits)
qed

subsection \<open>First match wins\<close>

text \<open>
  C2. \<^verbatim>\<open>analyze_genotype\<close> scans the table in insertion order: whenever some record
  matches the observed mapping at all six positions, the result is the label, acetylator
  type and frequency of the record at the least index \<open>i\<close> that matches (no record
  before \<open>i\<close> matches).
\<close>

theorem analyze_genotype_first_match:
  assumes "\<exists>entry \<in> set NAT2_GENOTYPES. matches observed (snd entry)"
  shows "\<exists>i < length NAT2_GENOTYPES.
           matches observed (snd (NAT2_GENOTYPES ! i)) \<and>
           (\<forall>j < i. \<not> matches observed (snd (NAT2_GENOTYPES ! j))) \<and>
           analyze_genotype observed =
             Inr (fst (NAT2_GENOTYPES ! i),
                  acetylator_type (snd (NAT2_GENOTYPES ! i)),
                  frequency (snd (NAT2_GENOTYPES ! i)))"
proof -
  let ?P = "\<lambda>entry. matches observed (snd entry)"
  from assms have "find ?P NAT2_GENOTYPES \<noteq> None"
    unfolding find_None_iff by blast
  then obtain entry where found: "find ?P NAT2_GENOTYPES = Some entry" by blast
  then obtain i where i: "i < length NAT2_GENOTYPES" "?P (NAT2_GENOTYPES ! i)"
      "entry = NAT2_GENOTYPES ! i" "\<forall>j < i. \<not> ?P (NAT2_GENOTYPES ! j)"
    unfolding find_Some_iff by blast
  have "analyze_genotype observed =
          Inr (fst entry, acetylator_type (snd entry), frequency (snd entry))"
    by (simp add: analyze_genotype_find found)
  with i show ?thesis by blast
qed

text \<open>
  The mapping \<^verbatim>\<open>{341:'C', 481:'T', 803:'G'}\<close> is matched by two records; the theorem
  applies to it.
\<close>

theorem analyze_genotype_first_match_witness:
  "(\<exists>entry \<in> set NAT2_GENOTYPES.
      matches [341 \<mapsto> ''C'', 481 \<mapsto> ''T'', 803 \<mapsto> ''G''] (snd entry)) \<and>
   (\<exists>i < length NAT2_GENOTYPES.
      matches [341 \<mapsto> ''C'', 481 \<mapsto> ''T'', 803 \<mapsto> ''G''] (snd (NAT2_GENOTYPES ! i)) \<and>
      (\<forall>j < i. \<not> matches [341 \<mapsto> ''C'', 481 \<mapsto> ''T'', 803 \<mapsto> ''G'']
                      (snd (NAT2_GENOTYPES ! j))) \<and>
      analyze_genotype [341 \<mapsto> ''C'', 481 \<mapsto> ''T'', 803 \<mapsto> ''G''] =
        Inr (fst (NAT2_GENOTYPES ! i),
             acetylator_type (snd (NAT2_GENOTYPES ! i)),
             frequency (snd (NAT2_GENOTYPES ! i))))"
proof -
  have h: "\<exists>entry \<in> set NAT2_GENOTYPES.
      matches [341 \<mapsto> ''C'', 481 \<mapsto> ''T'', 803 \<mapsto> ''G''] (snd entry)"
    by (simp add: NAT2_GENOTYPES_def matches_def mutation_positions_def dict_get_def)
  from h analyze_genotype_first_match [OF h] show ?thesis by blast
qed

subsection \<open>Looking up a record by its own alleles\<close>

text \<open>
  C1. For every record of the table, \<^verbatim>\<open>analyze_genotype\<close> called with the record's
  own six expected alleles should return that record's label, acetylator type and
  frequency. The code does not do so for the fourth record: \<^verbatim>\<open>NAT2*5/*5\<close> (Slow, 24.2)
  called with its own alleles \<^verbatim>\<open>{282:'.', 341:'C', 481:'T', 590:'.', 803:'G', 857:'.'}\<close>
  comes back as \<^verbatim>\<open>("NAT2*4/*5", "Intermediate", 15.0)\<close>.
\<close>

theorem analyze_genotype_NAT2_5_5_alleles:
  "fst (NAT2_GENOTYPES ! 3) = ''NAT2*5/*5'' \<and>
   analyze_genotype (map_of (mutations (snd (NAT2_GENOTYPES ! 3)))) =
     Inr (''NAT2*4/*5'', ''Intermediate'', 15) \<and>
   analyze_genotype (map_of (mutations (snd (NAT2_GENOTYPES ! 3)))) \<noteq>
     Inr (fst (NAT2_GENOTYPES ! 3),
          acetylator_type (snd (NAT2_GENOTYPES ! 3)),
          frequency (snd (NAT2_GENOTYPES ! 3)))"
  by (simp add: analyze_genotype_def NAT2_GENOTYPES_def mutation_positions_def dict_get_def)

text \<open>
  The other four records are found under their own alleles.
\<close>

lemma analyze_genotype_other_alleles:
  "analyze_genotype (map_of (mutations (snd (NAT2_GENOTYPES ! 0)))) =
     Inr (fst (NAT2_GENOTYPES ! 0),
          acetylator_type (snd (NAT2_GENOTYPES ! 0)),
          frequency (snd (NAT2_GENOTYPES ! 0))) \<and>
   analyze_genotype (map_of (mutations (snd (NAT2_GENOTYPES ! 1)))) =
     Inr (fst (NAT2_GENOTYPES ! 1),
          acetylator_type (snd (NAT2_GENOTYPES ! 1)),
          frequency (snd (NAT2_GENOTYPES ! 1))) \<and>
   analyze_genotype (map_of (mutations (snd (NAT2_GENOTYPES ! 2)))) =
     Inr (fst (NAT2_GENOTYPES ! 2),
          acetylator_type (snd (NAT2_GENOTYPES ! 2)),
          frequency (snd (NAT2_GENOTYPES ! 2))) \<and>
   analyze_genotype (map_of (mutations (snd (NAT2_GENOTYPES ! 4)))) =
     Inr (fst (NAT2_GENOTYPES ! 4),
          acetylator_type (snd (NAT2_GENOTYPES ! 4)),
          frequency (snd (NAT2_GENOTYPES ! 4)))"
  by (simp add: analyze_genotype_def NAT2_GENOTYPES_def mutation_positions_def dict_get_def)

subsection \<open>Distinctness of the expected alleles\<close>

text \<open>
  C3. The five records should have pairwise distinct expected-allele tuples over the six
  positions. In the table they do not: the records \<^verbatim>\<open>NAT2*4/*5\<close> (index 2) and
  \<^verbatim>\<open>NAT2*5/*5\<close> (index 3) expect the same symbol at each of the six positions, so the
  list of the five tuples is not distinct.
\<close>

theorem NAT2_GENOTYPES_alleles_collide:
  "fst (NAT2_GENOTYPES ! 2) = ''NAT2*4/*5'' \<and>
   fst (NAT2_GENOTYPES ! 3) = ''NAT2*5/*5'' \<and>
   map (map_of (mutations (snd (NAT2_GENOTYPES ! 2)))) mutation_positions =
   map (map_of (mutations (snd (NAT2_GENOTYPES ! 3)))) mutation_positions \<and>
   \<not> distinct (map (\<lambda>entry. map (map_of (mutations (snd entry))) mutation_positions)
                   NAT2_GENOTYPES)"
  by (simp add: NAT2_GENOTYPES_def mutation_positions_def)

text \<open>
  This is the only collision: without the fourth record the tuples are distinct.
\<close>

lemma NAT2_GENOTYPES_other_alleles_distinct:
  "distinct (map (\<lambda>entry. map (map_of (mutations (snd entry))) mutation_positions)
               (take 3 NAT2_GENOTYPES @ drop 4 NAT2_GENOTYPES))"
  by (simp add: NAT2_GENOTYPES_def mutation_positions_def)

subsection \<open>The record that is never returned\<close>

lemma matches_mutations_cong:
  "mutations data = mutations data' \<Longrightarrow> matches observed data = matches observed data'"
  by (simp add: matches_def)

text \<open>
  C4. Whatever the observed mapping, \<^verbatim>\<open>analyze_genotype\<close> returns a triple, and the
  triple carries neither the label \<^verbatim>\<open>NAT2*5/*5\<close> nor the frequency 24.2; an observed
  mapping that matches the record \<^verbatim>\<open>NAT2*5/*5\<close> is resolved to \<^verbatim>\<open>("NAT2*4/*5", "Intermediate", 15.0)\<close>, the
  earlier record with the same expected alleles.
\<close>

theorem analyze_genotype_never_NAT2_5_5:
  "(\<exists>genotype acetylator freq.
      analyze_genotype observed = Inr (genotype, acetylator, freq) \<and>
      genotype \<noteq> ''NAT2*5/*5'' \<and> freq \<noteq> 242 / 10) \<and>
   (matches observed (snd (NAT2_GENOTYPES ! 3)) \<longrightarrow>
      analyze_genotype observed = Inr (''NAT2*4/*5'', ''Intermediate'', 15))"
proof -
  have same: "matches observed (snd (NAT2_GENOTYPES ! 3)) = matches observed (snd (NAT2_GENOTYPES ! 2))"
    by (rule matches_mutations_cong) (simp add: NAT2_GENOTYPES_def)
  have earlier: "matches observed (snd (NAT2_GENOTYPES ! 2)) \<Longrightarrow>
      \<not> matches observed (snd (NAT2_GENOTYPES ! 0)) \<and> \<not> matches observed (snd (NAT2_GENOTYPES ! 1))"
    by (auto simp add: NAT2_GENOTYPES_def matches_def mutation_positions_def)
  have unfolded: "analyze_genotype observed =
     (if matches observed (snd (NAT2_GENOTYPES ! 0)) then Inr (''NAT2*4/*4'', ''Fast'', 33 / 10)
      else if matches observed (snd (NAT2_GENOTYPES ! 1)) then Inr (''NAT2*4/*14'', ''Intermediate'', 8 / 10)
      else if matches observed (snd (NAT2_GENOTYPES ! 2)) then Inr (''NAT2*4/*5'', ''Intermediate'', 15)
      else if matches observed (snd (NAT2_GENOTYPES ! 3)) then Inr (''NAT2*5/*5'', ''Slow'', 242 / 10)
      else if matches observed (snd (NAT2_GENOTYPES ! 4)) then Inr (''NAT2*6/*6'', ''Slow'', 158 / 10)
      else Inr (''Unknown'', ''Unknown'', 0))"
    by (simp add: analyze_genotype_find NAT2_GENOTYPES_def)
  have "analyze_genotype observed \<in>
          {Inr (''NAT2*4/*4'', ''Fast'', 33 / 10), Inr (''NAT2*4/*14'', ''Intermediate'', 8 / 10),
           Inr (''NAT2*4/*5'', ''Intermediate'', 15), Inr (''NAT2*6/*6'', ''Slow'', 158 / 10),
           Inr (''Unknown'', ''Unknown'', 0)}"
    by (simp add: unfolded same)
  then consider
      "analyze_genotype observed = Inr (''NAT2*4/*4'', ''Fast'', 33 / 10)"
    | "analyze_genotype observed = Inr (''NAT2*4/*14'', ''Intermediate'', 8 / 10)"
    | "analyze_genotype observed = Inr (''NAT2*4/*5'', ''Intermediate'', 15)"
    | "analyze_genotype observed = Inr (''NAT2*6/*6'', ''Slow'', 158 / 10)"
    | "analyze_genotype observed = Inr (''Unknown'', ''Unknown'', 0)"
    by blast
  then have returned: "\<exists>genotype acetylator freq.
      analyze_genotype observed = Inr (genotype, acetylator, freq) \<and>
      genotype \<noteq> ''NAT2*5/*5'' \<and> freq \<noteq> 242 / 10"
  proof cases
    case 1
    show ?thesis by (intro exI conjI, rule 1) simp_all
  next
    case 2
    show ?thesis by (intro exI conjI, rule 2) simp_all
  next
    case 3
    show ?thesis by (intro exI conjI, rule 3) simp_all
  next
    case 4
    show ?thesis by (intro exI conjI, rule 4) simp_all
  next
    case 5
    show ?thesis by (intro exI conjI, rule 5) simp_all
  qed
  have shadowed: "matches observed (snd (NAT2_GENOTYPES ! 3)) \<longrightarrow>
      analyze_genotype observed = Inr (''NAT2*4/*5'', ''Intermediate'', 15)"
    using earlier by (simp add: unfolded same)
  from returned shadowed show ?thesis by (rule conjI)
qed

text \<open>
  The mapping \<^verbatim>\<open>{341:'C', 481:'T', 803:'G'}\<close> matches the record \<^verbatim>\<open>NAT2*5/*5\<close>.
\<close>

theorem analyze_genotype_never_NAT2_5_5_witness:
  "fst (NAT2_GENOTYPES ! 3) = ''NAT2*5/*5'' \<and>
   matches [341 \<mapsto> ''C'', 481 \<mapsto> ''T'', 803 \<mapsto> ''G''] (snd (NAT2_GENOTYPES ! 3)) \<and>
   analyze_genotype [341 \<mapsto> ''C'', 481 \<mapsto> ''T'', 803 \<mapsto> ''G''] =
     Inr (''NAT2*4/*5'', ''Intermediate'', 15)"
proof -
  have h: "matches [341 \<mapsto> ''C'', 481 \<mapsto> ''T'', 803 \<mapsto> ''G''] (snd (NAT2_GENOTYPES ! 3))"
    by (simp add: NAT2_GENOTYPES_def matches_def mutation_positions_def dict_get_def)
  have l: "fst (NAT2_GENOTYPES ! 3) = ''NAT2*5/*5''"
    by (simp add: NAT2_GENOTYPES_def)
  from h l analyze_genotype_never_NAT2_5_5 [of "[341 \<mapsto> ''C'', 481 \<mapsto> ''T'', 803 \<mapsto> ''G'']"]
  show ?thesis by blast
qed

subsection \<open>No match\<close>

text \<open>
  C5. When the observed mapping differs from every record in at least one of the six
  positions (an absent position read as \<^verbatim>\<open>'.'\<close>), \<^verbatim>\<open>analyze_genotype\<close> returns
  the sentinel \<^verbatim>\<open>("Unknown", "Unknown", 0.0)\<close> as an ordinary value (\<open>Inr\<close>, nothing
  is raised); the mapping sending all six positions to \<^verbatim>\<open>'T'\<close> is such an input.
\<close>

theorem analyze_genotype_unknown:
  "((\<forall>entry \<in> set NAT2_GENOTYPES.
       \<exists>pos \<in> set mutation_positions.
         map_of (mutations (snd entry)) pos \<noteq> Some (dict_get observed pos ''.''))
     \<longrightarrow> analyze_genotype observed = Inr (''Unknown'', ''Unknown'', 0)) \<and>
   analyze_genotype [282 \<mapsto> ''T'', 341 \<mapsto> ''T'', 481 \<mapsto> ''T'',
                     590 \<mapsto> ''T'', 803 \<mapsto> ''T'', 857 \<mapsto> ''T'']
     = Inr (''Unknown'', ''Unknown'', 0)"
proof
  show "(\<forall>entry \<in> set NAT2_GENOTYPES.
       \<exists>pos \<in> set mutation_positions.
         map_of (mutations (snd entry)) pos \<noteq> Some (dict_get observed pos ''.''))
     \<longrightarrow> analyze_genotype observed = Inr (''Unknown'', ''Unknown'', 0)"
  proof
    assume "\<forall>entry \<in> set NAT2_GENOTYPES.
       \<exists>pos \<in> set mutation_positions.
         map_of (mutations (snd entry)) pos \<noteq> Some (dict_get observed pos ''.'')"
    then have "\<forall>entry \<in> set NAT2_GENOTYPES. \<not> matches observed (snd entry)"
      unfolding matches_def by blast
    then have "find (\<lambda>entry. matches observed (snd entry)) NAT2_GENOTYPES = None"
      unfolding find_None_iff by blast
    then show "analyze_genotype observed = Inr (''Unknown'', ''Unknown'', 0)"
      by (simp add: analyze_genotype_find)
  qed
next
  show "analyze_genotype [282 \<mapsto> ''T'', 341 \<mapsto> ''T'', 481 \<mapsto> ''T'',
                     590 \<mapsto> ''T'', 803 \<mapsto> ''T'', 857 \<mapsto> ''T'']
     = Inr (''Unknown'', ''Unknown'', 0)"
    by (simp add: analyze_genotype_def NAT2_GENOTYPES_def mutation_positions_def dict_get_def)
qed

theorem analyze_genotype_unknown_witness:
  "(\<exists>pos \<in> set mutation_positions.
      map_of (mutations (snd (NAT2_GENOTYPES ! 0))) pos \<noteq> Some (dict_get [590 \<mapsto> ''G''] pos ''.'')) \<and>
   (\<exists>pos \<in> set mutation_positions.
      map_of (mutations (snd (NAT2_GENOTYPES ! 4))) pos \<noteq> Some (dict_get [590 \<mapsto> ''G''] pos ''.'')) \<and>
   analyze_genotype [590 \<mapsto> ''G''] = Inr (''Unknown'', ''Unknown'', 0)"
proof -
  have h: "\<forall>entry \<in> set NAT2_GENOTYPES.
       \<exists>pos \<in> set mutation_positions.
         map_of (mutations (snd entry)) pos \<noteq> Some (dict_get [590 \<mapsto> ''G''] pos ''.'')"
    by (simp add: NAT2_GENOTYPES_def mutation_positions_def dict_get_def)
  have "analyze_genotype [590 \<mapsto> ''G''] = Inr (''Unknown'', ''Unknown'', 0)"
    using h analyze_genotype_unknown [of "[590 \<mapsto> ''G'']"] by blast
  then show ?thesis
    by (simp add: NAT2_GENOTYPES_def mutation_positions_def dict_get_def)
qed

subsection \<open>Absent positions\<close>

lemma dict_get_absent_default:
  "dict_get (observed(pos := None)) q ''.'' = dict_get (observed(pos \<mapsto> ''.'')) q ''.''"
  by (simp add: dict_get_def)

text \<open>
  C7. A position absent from the observed mapping is read as \<^verbatim>\<open>'.'\<close>: removing the
  entry at any position gives the same result as setting it to \<^verbatim>\<open>'.'\<close>. The empty
  mapping gives the same result as the mapping sending all six positions to \<^verbatim>\<open>'.'\<close>,
  which is \<^verbatim>\<open>("NAT2*4/*4", "Fast", 3.3)\<close>.
\<close>

theorem analyze_genotype_absent_is_wild_type:
  "analyze_genotype (observed(pos := None)) = analyze_genotype (observed(pos \<mapsto> ''.'')) \<and>
   analyze_genotype Map.empty =
     analyze_genotype [282 \<mapsto> ''.'', 341 \<mapsto> ''.'', 481 \<mapsto> ''.'',
                       590 \<mapsto> ''.'', 803 \<mapsto> ''.'', 857 \<mapsto> ''.''] \<and>
   analyze_genotype Map.empty = Inr (''NAT2*4/*4'', ''Fast'', 33 / 10)"
proof (intro conjI)
  show "analyze_genotype (observed(pos := None)) = analyze_genotype (observed(pos \<mapsto> ''.''))"
    unfolding analyze_genotype_def
    by (rule analyze_genotype_loop_cong) (simp add: dict_get_absent_default)
next
  show "analyze_genotype Map.empty =
     analyze_genotype [282 \<mapsto> ''.'', 341 \<mapsto> ''.'', 481 \<mapsto> ''.'',
                       590 \<mapsto> ''.'', 803 \<mapsto> ''.'', 857 \<mapsto> ''.'']"
    by (simp add: analyze_genotype_def NAT2_GENOTYPES_def mutation_positions_def dict_get_def)
next
  show "analyze_genotype Map.empty = Inr (''NAT2*4/*4'', ''Fast'', 33 / 10)"
    by (simp add: analyze_genotype_def NAT2_GENOTYPES_def mutation_positions_def dict_get_def)
qed

subsection \<open>Concrete scenarios\<close>

text \<open>
  C9. The observed set \<^verbatim>\<open>{282:'.', 341:'.', 481:'.', 590:'.', 803:'A', 857:'G'}\<close> is
  resolved to \<^verbatim>\<open>("NAT2*4/*14", "Intermediate", 0.8)\<close> and
  \<^verbatim>\<open>{282:'T', 341:'.', 481:'.', 590:'A', 803:'.', 857:'.'}\<close> to
  \<^verbatim>\<open>("NAT2*6/*6", "Slow", 15.8)\<close>.
\<close>

theorem analyze_genotype_scenarios:
  "analyze_genotype [282 \<mapsto> ''.'', 341 \<mapsto> ''.'', 481 \<mapsto> ''.'',
                     590 \<mapsto> ''.'', 803 \<mapsto> ''A'', 857 \<mapsto> ''G'']
     = Inr (''NAT2*4/*14'', ''Intermediate'', 8 / 10) \<and>
   analyze_genotype [282 \<mapsto> ''T'', 341 \<mapsto> ''.'', 481 \<mapsto> ''.'',
                     590 \<mapsto> ''A'', 803 \<mapsto> ''.'', 857 \<mapsto> ''.'']
     = Inr (''NAT2*6/*6'', ''Slow'', 158 / 10)"
  by (simp add: analyze_genotype_def NAT2_GENOTYPES_def mutation_positions_def dict_get_def)

subsection \<open>Only the six positions are read\<close>

text \<open>
  C10. Two observed mappings that agree at the six positions, an absent position read as
  \<^verbatim>\<open>'.'\<close>, get the same result, whatever they hold at other positions.
\<close>

theorem analyze_genotype_six_positions_only:
  assumes "\<forall>pos \<in> set mutation_positions.
             dict_get observed pos ''.'' = dict_get observed' pos ''.''"
  shows "analyze_genotype observed = analyze_genotype observed'"
  unfolding analyze_genotype_def using assms by (rule analyze_genotype_loop_cong)

text \<open>
  Two mappings that differ at position 999 (and in which of the six positions are present)
  but agree on the six values read.
\<close>

theorem analyze_genotype_six_positions_only_witness:
  "map (\<lambda>pos. dict_get [803 \<mapsto> ''A'', 857 \<mapsto> ''G'', 999 \<mapsto> ''T''] pos ''.'')
       mutation_positions =
   map (\<lambda>pos. dict_get [282 \<mapsto> ''.'', 803 \<mapsto> ''A'', 857 \<mapsto> ''G'', 0 \<mapsto> ''C''] pos ''.'')
       mutation_positions \<and>
   [803 \<mapsto> ''A'', 857 \<mapsto> ''G'', 999 \<mapsto> ''T''] (999::int) \<noteq>
   [282 \<mapsto> ''.'', 803 \<mapsto> ''A'', 857 \<mapsto> ''G'', 0 \<mapsto> ''C''] 999 \<and>
   analyze_genotype [803 \<mapsto> ''A'', 857 \<mapsto> ''G'', 999 \<mapsto> ''T''] =
   analyze_genotype [282 \<mapsto> ''.'', 803 \<mapsto> ''A'', 857 \<mapsto> ''G'', 0 \<mapsto> ''C'']"
proof -
  have h: "\<forall>pos \<in> set mutation_positions.
      dict_get [803 \<mapsto> ''A'', 857 \<mapsto> ''G'', 999 \<mapsto> ''T''] pos ''.'' =
      dict_get [282 \<mapsto> ''.'', 803 \<mapsto> ''A'', 857 \<mapsto> ''G'', 0 \<mapsto> ''C''] pos ''.''"
    by (simp add: mutation_positions_def dict_get_def)
  have "analyze_genotype [803 \<mapsto> ''A'', 857 \<mapsto> ''G'', 999 \<mapsto> ''T''] =
        analyze_genotype [282 \<mapsto> ''.'', 803 \<mapsto> ''A'', 857 \<mapsto> ''G'', 0 \<mapsto> ''C'']"
    using analyze_genotype_six_positions_only [OF h] .
  then show ?thesis
    by (simp add: mutation_positions_def dict_get_def)
qed

subsection \<open>Dosing recommendations\<close>

text \<open>
  C6. For every string other than \<^verbatim>\<open>"Fast"\<close>, \<^verbatim>\<open>"Intermediate"\<close> and
  \<^verbatim>\<open>"Slow"\<close>, in particular \<^verbatim>\<open>"Unknown"\<close>, \<^verbatim>\<open>get_dosing_recommendation\<close>
  returns the fallback record: dose "Consult specialist", risk "Unknown", monitoring
  "Frequent monitoring required", details "Individual assessment needed". The function is
  total: nothing is raised.
\<close>

theorem get_dosing_recommendation_fallback:
  "(acetylator \<notin> {''Fast'', ''Intermediate'', ''Slow''} \<longrightarrow>
      get_dosing_recommendation acetylator =
        \<lparr>dose = ''Consult specialist'', risk = ''Unknown'',
         monitoring = ''Frequent monitoring required'',
         details = ''Individual assessment needed''\<rparr>) \<and>
   get_dosing_recommendation ''Unknown'' =
     \<lparr>dose = ''Consult specialist'', risk = ''Unknown'',
      monitoring = ''Frequent monitoring required'',
      details = ''Individual assessment needed''\<rparr>"
  by (simp add: get_dosing_recommendation_def recommendations_def dict_get_def
        fallback_recommendation_def)

text \<open>
  The lookup is case-sensitive: \<^verbatim>\<open>"fast"\<close> gets the fallback record.
\<close>

theorem get_dosing_recommendation_fallback_witness:
  "''fast'' \<notin> {''Fast'', ''Intermediate'', ''Slow''} \<and>
   get_dosing_recommendation ''fast'' =
     \<lparr>dose = ''Consult specialist'', risk = ''Unknown'',
      monitoring = ''Frequent monitoring required'',
      details = ''Individual assessment needed''\<rparr>"
proof -
  have h: "''fast'' \<notin> {''Fast'', ''Intermediate'', ''Slow''}" by simp
  from h get_dosing_recommendation_fallback [of "''fast''"] show ?thesis by blast
qed

text \<open>
  C8. \<^verbatim>\<open>"Fast"\<close>, \<^verbatim>\<open>"Intermediate"\<close> and \<^verbatim>\<open>"Slow"\<close> each get a fixed record;
  none of the twelve text fields is empty, the three records are pairwise distinct, and the
  record for \<^verbatim>\<open>"Slow"\<close> has dose "2.5-4 mg/kg/day" and a risk text that starts with
  "Higher risk" and ends with "liver injury".
\<close>

theorem get_dosing_recommendation_known:
  "get_dosing_recommendation ''Fast'' =
     \<lparr>dose = ''5-6 mg/kg/day'',
      risk = ''Lower risk of adverse effects, monitor for treatment efficacy'',
      monitoring = ''Regular liver function tests every 3 months'',
      details = ''May require higher doses to maintain therapeutic levels''\<rparr> \<and>
   get_dosing_recommendation ''Intermediate'' =
     \<lparr>dose = ''4-5 mg/kg/day'',
      risk = ''Moderate risk of adverse effects'',
      monitoring = ''Liver function tests every 2 months'',
      details = ''Standard dosing usually appropriate''\<rparr> \<and>
   get_dosing_recommendation ''Slow'' =
     \<lparr>dose = ''2.5-4 mg/kg/day'',
      risk = ''Higher risk of drug-induced liver injury'',
      monitoring = ''Monthly liver function tests'',
      details = ''Requires reduced dosing to prevent toxicity''\<rparr> \<and>
   [] \<notin> (\<Union>r \<in> {get_dosing_recommendation ''Fast'',
                     get_dosing_recommendation ''Intermediate'',
                     get_dosing_recommendation ''Slow''}.
              {dose r, risk r, monitoring r, details r}) \<and>
   distinct [get_dosing_recommendation ''Fast'',
             get_dosing_recommendation ''Intermediate'',
             get_dosing_recommendation ''Slow''] \<and>
   dose (get_dosing_recommendation ''Slow'') = ''2.5-4 mg/kg/day'' \<and>
   (\<exists>rest. risk (get_dosing_recommendation ''Slow'') = ''Higher risk'' @ rest) \<and>
   (\<exists>before. risk (get_dosing_recommendation ''Slow'') = before @ ''liver injury'')"
  by (simp add: get_dosing_recommendation_def recommendations_def dict_get_def)

end
